theory Spec2Isabelle
  imports Main
begin

section \<open>Habit tracker\<close>

text \<open>
  A habit object of the application, as \<^verbatim>\<open>addHabit\<close> creates it:
  \<^verbatim>\<open>{ id: uid(), title: title.trim(), toggledToday: false, streak: 0, lastSeen: null }\<close>.
  The field \<^verbatim>\<open>id\<close> is called \<open>id_h\<close> here. \<^verbatim>\<open>lastSeen\<close> is either \<^verbatim>\<open>null\<close>
  (\<open>None\<close>) or a string; day keys are the first ten characters of an ISO timestamp.
  The record is extensible, so that an object spread \<^verbatim>\<open>{ ...h, f: v }\<close> is a record
  update that keeps every other field.
\<close>

record habit =
  id_h :: string
  title :: string
  toggledToday :: bool
  streak :: int
  lastSeen :: "string option"

text \<open>
  \<^verbatim>\<open>toggleHabit\<close> of the longer source file (the one with the usage notes in its header):
  \<^verbatim>\<open>
  s.map((h) => {
    if (h.id !== id) return h;
    const toggled = !(h.lastSeen === todayKey && h.toggledToday);
    const streak = toggled && h.lastSeen === todayKey ? h.streak : toggled ? h.streak + 1 : h.streak;
    return { ...h, toggledToday: toggled, lastSeen: todayKey, streak };
  })
  \<close>
  The day key \<^verbatim>\<open>new Date().toISOString().slice(0, 10)\<close> is read from the clock and is
  a parameter here.
\<close>

definition toggleHabit_cb :: "string \<Rightarrow> string \<Rightarrow> 'a habit_scheme \<Rightarrow> 'a habit_scheme" where
  "toggleHabit_cb todayKey i h =
     (if id_h h \<noteq> i then h
      else
        let toggled = \<not> (lastSeen h = Some todayKey \<and> toggledToday h);
            streak' = (if toggled \<and> lastSeen h = Some todayKey then streak h
                       else if toggled then streak h + 1 else streak h)
        in h\<lparr>toggledToday := toggled, lastSeen := Some todayKey, streak := streak'\<rparr>)"

definition toggleHabit :: "string \<Rightarrow> string \<Rightarrow> 'a habit_scheme list \<Rightarrow> 'a habit_scheme list" where
  "toggleHabit todayKey i s = map (toggleHabit_cb todayKey i) s"

text \<open>
  \<^verbatim>\<open>toggleHabit\<close> of the shorter source file, which writes the three fields of the
  object literal out, each with its own copy of the condition:
  \<^verbatim>\<open>
  h.id === id
    ? { ...h,
        toggledToday: !(h.lastSeen === todayKey && h.toggledToday),
        streak: !(h.lastSeen === todayKey && h.toggledToday) && h.lastSeen === todayKey
                  ? h.streak
                  : !(h.lastSeen === todayKey && h.toggledToday) ? h.streak + 1 : h.streak,
        lastSeen: todayKey }
    : h
  \<close>
  Every right-hand side reads the old \<^verbatim>\<open>h\<close>.
\<close>

definition toggleHabit_cb_short :: "string \<Rightarrow> string \<Rightarrow> 'a habit_scheme \<Rightarrow> 'a habit_scheme" where
  "toggleHabit_cb_short todayKey i h =
     (if id_h h = i
      then h\<lparr>toggledToday := \<not> (lastSeen h = Some todayKey \<and> toggledToday h),
             streak :=
               (if \<not> (lastSeen h = Some todayKey \<and> toggledToday h) \<and> lastSeen h = Some todayKey
                then streak h
                else if \<not> (lastSeen h = Some todayKey \<and> toggledToday h)
                then streak h + 1
                else streak h),
             lastSeen := Some todayKey\<rparr>
      else h)"

definition toggleHabit_short :: "string \<Rightarrow> string \<Rightarrow> 'a habit_scheme list \<Rightarrow> 'a habit_scheme list" where
  "toggleHabit_short todayKey i s = map (toggleHabit_cb_short todayKey i) s"

text \<open>
  The daily reset effect, run once when \<^verbatim>\<open>App\<close> mounts. In the longer file:
  \<^verbatim>\<open>
  hs.map((h) => ({
    ...h,
    lastSeen: h.lastSeen || null,
    toggledToday: h.lastSeen === todayKey ? h.toggledToday : false,
  }))
  \<close>
  \<^verbatim>\<open>x || null\<close> is \<^verbatim>\<open>null\<close> for every falsy \<^verbatim>\<open>x\<close>: of the values of
  \<open>string option\<close> these are \<^verbatim>\<open>null\<close> and the empty string.
\<close>

definition or_null :: "string option \<Rightarrow> string option" where
  "or_null v = (case v of None \<Rightarrow> None | Some [] \<Rightarrow> None | Some (c # cs) \<Rightarrow> Some (c # cs))"

definition dailyReset :: "string \<Rightarrow> 'a habit_scheme list \<Rightarrow> 'a habit_scheme list" where
  "dailyReset todayKey hs =
     map (\<lambda>h. h\<lparr>lastSeen := or_null (lastSeen h),
                toggledToday := (if lastSeen h = Some todayKey then toggledToday h else False)\<rparr>) hs"

text \<open>The shorter file has no \<^verbatim>\<open>lastSeen\<close> line in the effect.\<close>

definition dailyReset_short :: "string \<Rightarrow> 'a habit_scheme list \<Rightarrow> 'a habit_scheme list" where
  "dailyReset_short todayKey hs =
     map (\<lambda>h. h\<lparr>toggledToday := (if lastSeen h = Some todayKey then toggledToday h else False)\<rparr>) hs"

section \<open>Pomodoro timer\<close>

text \<open>
  The hook \<^verbatim>\<open>usePomodoro\<close> is the same in both source files. Its settings object has
  the four numeric fields \<^verbatim>\<open>work\<close>, \<^verbatim>\<open>short\<close>, \<^verbatim>\<open>long\<close> (minutes) and
  \<^verbatim>\<open>cycles\<close>; the mode is one of the strings \<^verbatim>\<open>"work"\<close>, \<^verbatim>\<open>"short"\<close>,
  \<^verbatim>\<open>"long"\<close>, which are also the keys \<^verbatim>\<open>setPreset\<close> indexes the settings with.
  Numbers are integers here.
\<close>

datatype mode = Work | Short | Long

record settings =
  work :: int
  short :: int
  long :: int
  cycles :: int

text \<open>
  The state of the hook: the four \<^verbatim>\<open>useState\<close> cells and the counter
  \<^verbatim>\<open>cyclesDoneRef.current\<close>.
\<close>

record pomodoro =
  settings :: settings
  mode :: mode
  secondsLeft :: int
  running :: bool
  cyclesDone :: int

text \<open>
  \<^verbatim>\<open>x || d\<close> on numbers: \<^verbatim>\<open>d\<close> when \<^verbatim>\<open>x\<close> is falsy, which for an integer is
  \<^verbatim>\<open>0\<close> only (a negative number is truthy).
\<close>

definition js_or :: "int \<Rightarrow> int \<Rightarrow> int" where
  "js_or x d = (if x = 0 then d else x)"

text \<open>
  \<^verbatim>\<open>a % b\<close>: the remainder of the truncating division, with the sign of \<^verbatim>\<open>a\<close>;
  \<^verbatim>\<open>NaN\<close> (\<open>None\<close>) when \<^verbatim>\<open>b\<close> is \<^verbatim>\<open>0\<close>, and \<^verbatim>\<open>NaN === 0\<close> is false.
\<close>

definition js_rem :: "int \<Rightarrow> int \<Rightarrow> int option" where
  "js_rem a b = (if b = 0 then None else Some (sgn a * (\<bar>a\<bar> mod \<bar>b\<bar>)))"

definition default_settings :: settings where
  "default_settings = \<lparr>work = 25, short = 5, long = 15, cycles = 4\<rparr>"

text \<open>\<^verbatim>\<open>settings[k]\<close> for a mode key \<^verbatim>\<open>k\<close>.\<close>

fun setting_of :: "settings \<Rightarrow> mode \<Rightarrow> int" where
  "setting_of st Work = work st"
| "setting_of st Short = short st"
| "setting_of st Long = long st"

text \<open>
  The initial values of the state cells:
  \<^verbatim>\<open>useState(initial)\<close>, \<^verbatim>\<open>useState("work")\<close>, \<^verbatim>\<open>useState(settings.work * 60)\<close>,
  \<^verbatim>\<open>useState(false)\<close>, \<^verbatim>\<open>useRef(0)\<close>.
\<close>

definition usePomodoro_init :: "settings \<Rightarrow> pomodoro" where
  "usePomodoro_init initial =
     \<lparr>settings = initial, mode = Work, secondsLeft = work initial * 60,
      running = False, cyclesDone = 0\<rparr>"

text \<open>
  The effect \<^verbatim>\<open>useEffect(() => { setSecondsLeft((settings.work || 25) * 60); }, [settings.work])\<close>
  runs after the first render and after every render in which \<^verbatim>\<open>settings.work\<close> has
  changed.
\<close>

definition work_effect :: "pomodoro \<Rightarrow> pomodoro" where
  "work_effect p = p\<lparr>secondsLeft := js_or (work (settings p)) 25 * 60\<rparr>"

definition usePomodoro :: "settings \<Rightarrow> pomodoro" where
  "usePomodoro initial = work_effect (usePomodoro_init initial)"

definition setSettings :: "settings \<Rightarrow> pomodoro \<Rightarrow> pomodoro" where
  "setSettings v p =
     (if work v \<noteq> work (settings p) then work_effect (p\<lparr>settings := v\<rparr>)
      else p\<lparr>settings := v\<rparr>)"

definition start :: "pomodoro \<Rightarrow> pomodoro" where
  "start p = p\<lparr>running := True\<rparr>"

definition pause :: "pomodoro \<Rightarrow> pomodoro" where
  "pause p = p\<lparr>running := False\<rparr>"

definition reset :: "pomodoro \<Rightarrow> pomodoro" where
  "reset p = p\<lparr>running := False, cyclesDone := 0, mode := Work,
               secondsLeft := js_or (work (settings p)) 25 * 60\<rparr>"

definition setPreset :: "mode \<Rightarrow> pomodoro \<Rightarrow> pomodoro" where
  "setPreset k p = p\<lparr>mode := k,
                     secondsLeft := js_or (setting_of (settings p) k) (work (settings p)) * 60,
                     running := False\<rparr>"

text \<open>
  The interval callback calls \<^verbatim>\<open>setSecondsLeft\<close> with this updater:
  \<^verbatim>\<open>
  (s) => {
    if (s <= 1) {
      if (mode === "work") {
        cyclesDoneRef.current += 1;
        const next = cyclesDoneRef.current % settings.cycles === 0 ? "long" : "short";
        setMode(next);
        setSecondsLeft(((next === "long" ? settings.long : settings.short) || 5) * 60);
      } else {
        setMode("work");
        setSecondsLeft((settings.work || 25) * 60);
      }
      return 0;
    }
    return s - 1;
  }
  \<close>
  \<open>tick_updater\<close> is that function: from the settings and the mode of the closure, the
  counter and \<^verbatim>\<open>s\<close> it gives the returned value, the new counter, and the state
  setters the body has called, in call order.
\<close>

datatype update = SetMode mode | SetSecondsLeft int

definition tick_updater :: "settings \<Rightarrow> mode \<Rightarrow> int \<Rightarrow> int \<Rightarrow> int \<times> int \<times> update list" where
  "tick_updater st m c s =
     (if s \<le> 1 then
        (if m = Work then
           let c' = c + 1;
               next = (if js_rem c' (cycles st) = Some 0 then Long else Short)
           in (0, c',
               [SetMode next,
                SetSecondsLeft (js_or (if next = Long then long st else short st) 5 * 60)])
         else (0, c, [SetMode Work, SetSecondsLeft (js_or (work st) 25 * 60)]))
      else (s - 1, c, []))"

fun apply_update :: "update \<Rightarrow> pomodoro \<Rightarrow> pomodoro" where
  "apply_update (SetMode m) p = p\<lparr>mode := m\<rparr>"
| "apply_update (SetSecondsLeft v) p = p\<lparr>secondsLeft := v\<rparr>"

text \<open>
  \<^verbatim>\<open>main.jsx\<close> mounts the component inside \<^verbatim>\<open>StrictMode\<close>:
  \<^verbatim>\<open>
  createRoot(document.getElementById('root')).render(
    <StrictMode>
      <App />
    </StrictMode>
  )
  \<close>

  One firing of the interval. The effect installs the interval only while \<^verbatim>\<open>running\<close>
  is true (\<^verbatim>\<open>if (!running) return;\<close>) and its cleanup clears it, so without
  \<^verbatim>\<open>running\<close> a second of wall-clock time changes nothing.

  The updater is not pure: it adds to the counter and calls two setters. What the hook
  holds after the tick depends on how React evaluates the updater, and the code of the
  component does not decide that. The three ways are the values of \<open>evaluation\<close>.
  \<^item> \<open>Rendered\<close>: React evaluates the updater once, while it renders the component.
    The setter calls made inside it are updates of that render and are applied on top
    of the value it returns, so after the tick that ends a phase the cell holds the
    duration of the new phase.
  \<^item> \<open>Eager\<close>: when the component has no pending work, which is the case after a state
    update that changed nothing, React evaluates the updater inside the call of
    \<^verbatim>\<open>setSecondsLeft\<close>. The updates of the setters called inside the updater are queued
    first and the outer update, which carries the returned value, last: after the tick
    that ends a phase the mode is the new one and the cell holds the returned \<^verbatim>\<open>0\<close>.
  \<^item> \<open>RenderedTwice\<close>: under \<^verbatim>\<open>StrictMode\<close> a development build renders the component
    twice and evaluates the updater in both renders, from the same \<^verbatim>\<open>s\<close>. The first
    render is discarded, but not what its updater did to \<^verbatim>\<open>cyclesDoneRef.current\<close>:
    the second evaluation starts from the counter the first one left.
\<close>

datatype evaluation = Rendered | Eager | RenderedTwice

definition tick :: "evaluation \<Rightarrow> pomodoro \<Rightarrow> pomodoro" where
  "tick ev p =
     (if \<not> running p then p
      else
        (case ev of
           Rendered \<Rightarrow>
             (case tick_updater (settings p) (mode p) (cyclesDone p) (secondsLeft p) of
                (r, c, us) \<Rightarrow> fold apply_update us (p\<lparr>secondsLeft := r, cyclesDone := c\<rparr>))
         | Eager \<Rightarrow>
             (case tick_updater (settings p) (mode p) (cyclesDone p) (secondsLeft p) of
                (r, c, us) \<Rightarrow> (fold apply_update us p)\<lparr>secondsLeft := r, cyclesDone := c\<rparr>)
         | RenderedTwice \<Rightarrow>
             (case tick_updater (settings p) (mode p) (cyclesDone p) (secondsLeft p) of
                (r1, c1, us1) \<Rightarrow>
                  (case tick_updater (settings p) (mode p) c1 (secondsLeft p) of
                     (r2, c2, us2) \<Rightarrow>
                       fold apply_update us2 (p\<lparr>secondsLeft := r2, cyclesDone := c2\<rparr>)))))"

text \<open>
  Everything that can happen to the hook, and a run of such events. A tick comes with
  the way React evaluates its updater.
\<close>

datatype event = Tick evaluation | Start | Pause | Reset | SetPreset mode | SetSettings settings

fun step :: "event \<Rightarrow> pomodoro \<Rightarrow> pomodoro" where
  "step (Tick ev) p = tick ev p"
| "step Start p = start p"
| "step Pause p = pause p"
| "step Reset p = reset p"
| "step (SetPreset k) p = setPreset k p"
| "step (SetSettings v) p = setSettings v p"

definition run :: "event list \<Rightarrow> pomodoro \<Rightarrow> pomodoro" where
  "run es p = fold step es p"

text \<open>
  A tick completes a work phase when the timer runs in mode \<^verbatim>\<open>"work"\<close> with at most one
  second left, and a break when it runs in another mode with at most one second left.
\<close>

definition completes_work :: "pomodoro \<Rightarrow> bool" where
  "completes_work p = (running p \<and> mode p = Work \<and> secondsLeft p \<le> 1)"

definition completes_break :: "pomodoro \<Rightarrow> bool" where
  "completes_break p = (running p \<and> mode p \<noteq> Work \<and> secondsLeft p \<le> 1)"

definition positive :: "settings \<Rightarrow> bool" where
  "positive st = (0 < work st \<and> 0 < short st \<and> 0 < long st \<and> 0 < cycles st)"

section \<open>Persistence\<close>

text \<open>
  \<^verbatim>\<open>localStorage\<close> is a map from keys to strings; reading it can throw (a browser that
  denies storage access), and \<^verbatim>\<open>JSON.parse\<close> throws on malformed text. Both are
  outside the repository: the store is a value \<open>js_error + (string \<rightharpoonup> string)\<close> and the
  parser a parameter.
\<close>

datatype json =
  JNull | JBool bool | JNum int | JStr string | JArr "json list" | JObj "(string \<times> json) list"

datatype js_error = SyntaxError | SecurityError

definition STORAGE_KEY :: string where
  "STORAGE_KEY = ''dailyflow_v1''"

definition try_catch :: "('e + 'a) \<Rightarrow> ('e \<Rightarrow> 'e + 'a) \<Rightarrow> 'e + 'a" where
  "try_catch body handler = (case body of Inl e \<Rightarrow> handler e | Inr v \<Rightarrow> Inr v)"

text \<open>
  \<^verbatim>\<open>
  const loadState = () => {
    try {
      const raw = localStorage.getItem(STORAGE_KEY);
      if (!raw) return null;
      return JSON.parse(raw);
    } catch (e) {
      console.error("Failed to load state", e);
      return null;
    }
  };
  \<close>
  (the shorter file has \<^verbatim>\<open>return raw ? JSON.parse(raw) : null\<close> and an empty handler).
  \<^verbatim>\<open>!raw\<close> holds for \<^verbatim>\<open>null\<close> and for the empty string.
\<close>

definition loadState ::
  "js_error + (string \<rightharpoonup> string) \<Rightarrow> (string \<Rightarrow> js_error + json) \<Rightarrow> js_error + json" where
  "loadState localStorage parse =
     try_catch
       (case localStorage of
          Inl e \<Rightarrow> Inl e
        | Inr store \<Rightarrow>
            (case store STORAGE_KEY of
               None \<Rightarrow> Inr JNull
             | Some raw \<Rightarrow> if raw = [] then Inr JNull else parse raw))
       (\<lambda>e. Inr JNull)"

text \<open>
  \<^verbatim>\<open>persisted?.k\<close>: \<^verbatim>\<open>undefined\<close> (\<open>None\<close>) when \<^verbatim>\<open>persisted\<close> is \<^verbatim>\<open>null\<close> or has no
  such property. \<^verbatim>\<open>v ?? d\<close>: \<^verbatim>\<open>d\<close> when \<^verbatim>\<open>v\<close> is \<^verbatim>\<open>undefined\<close> or \<^verbatim>\<open>null\<close>.
\<close>

definition get_prop :: "json \<Rightarrow> string \<Rightarrow> json option" where
  "get_prop v k = (case v of JObj kvs \<Rightarrow> map_of kvs k | _ \<Rightarrow> None)"

definition nullish :: "json option \<Rightarrow> json \<Rightarrow> json" where
  "nullish v d = (case v of None \<Rightarrow> d | Some JNull \<Rightarrow> d | Some x \<Rightarrow> x)"

text \<open>
  The state \<^verbatim>\<open>App\<close> starts from:
  \<^verbatim>\<open>
  const persisted = loadState();
  useState(persisted?.dark ?? false);   useState(persisted?.todos ?? []);
  useState(persisted?.habits ?? []);    useState(persisted?.notes ?? "");
  usePomodoro(persisted?.pomodoro ?? undefined);
  \<close>
  where \<^verbatim>\<open>usePomodoro\<close> has the default parameter
  \<^verbatim>\<open>{ work: 25, short: 5, long: 15, cycles: 4 }\<close>.
\<close>

record app_state =
  dark :: json
  todos :: json
  habits :: json
  notes_v :: json
  pomodoro_settings :: json

text \<open>(\<open>notes_v\<close> is the cell \<^verbatim>\<open>notes\<close>.)\<close>

definition default_settings_json :: json where
  "default_settings_json =
     JObj [(''work'', JNum 25), (''short'', JNum 5), (''long'', JNum 15), (''cycles'', JNum 4)]"

definition App_init ::
  "js_error + (string \<rightharpoonup> string) \<Rightarrow> (string \<Rightarrow> js_error + json) \<Rightarrow> js_error + app_state" where
  "App_init localStorage parse =
     (case loadState localStorage parse of
        Inl e \<Rightarrow> Inl e
      | Inr persisted \<Rightarrow>
          Inr \<lparr>dark = nullish (get_prop persisted ''dark'') (JBool False),
               todos = nullish (get_prop persisted ''todos'') (JArr []),
               habits = nullish (get_prop persisted ''habits'') (JArr []),
               notes_v = nullish (get_prop persisted ''notes'') (JStr ''''),
               pomodoro_settings = nullish (get_prop persisted ''pomodoro'') default_settings_json\<rparr>)"

text \<open>The settings record a settings object with integer fields stands for.\<close>

definition settings_of_json :: "json \<Rightarrow> settings option" where
  "settings_of_json v =
     (case (get_prop v ''work'', get_prop v ''short'', get_prop v ''long'', get_prop v ''cycles'') of
        (Some (JNum w), Some (JNum s), Some (JNum l), Some (JNum c)) \<Rightarrow>
          Some \<lparr>work = w, short = s, long = l, cycles = c\<rparr>
      | _ \<Rightarrow> None)"

definition default_state :: app_state where
  "default_state =
     \<lparr>dark = JBool False, todos = JArr [], habits = JArr [], notes_v = JStr '''',
      pomodoro_settings = default_settings_json\<rparr>"

section \<open>Habit tracker: properties\<close>

lemma toggleHabit_cb_short_eq: "toggleHabit_cb_short todayKey i h = toggleHabit_cb todayKey i h"
  by (simp add: toggleHabit_cb_short_def toggleHabit_cb_def Let_def)

lemma toggleHabit_short_eq: "toggleHabit_short todayKey i s = toggleHabit todayKey i s"
  by (simp add: toggleHabit_short_def toggleHabit_def toggleHabit_cb_short_eq)

lemma toggleHabit_length: "length (toggleHabit todayKey i s) = length s"
  by (simp add: toggleHabit_def)

lemma toggleHabit_nth:
  "k < length s \<Longrightarrow> toggleHabit todayKey i s ! k = toggleHabit_cb todayKey i (s ! k)"
  by (simp add: toggleHabit_def)

lemma toggleHabit_cb_funpow:
  assumes "id_h h = i" and "lastSeen h \<noteq> Some todayKey"
  shows "((toggleHabit_cb todayKey i) ^^ Suc n) h
           = h\<lparr>toggledToday := even n, lastSeen := Some todayKey, streak := streak h + 1\<rparr>"
proof (induction n)
  case 0
  show ?case using assms by (simp add: toggleHabit_cb_def)
next
  case (Suc n)
  have "((toggleHabit_cb todayKey i) ^^ Suc (Suc n)) h
          = toggleHabit_cb todayKey i (((toggleHabit_cb todayKey i) ^^ Suc n) h)"
    by simp
  also have "\<dots> = toggleHabit_cb todayKey i
                     (h\<lparr>toggledToday := even n, lastSeen := Some todayKey, streak := streak h + 1\<rparr>)"
    by (simp only: Suc.IH)
  also have "\<dots> = h\<lparr>toggledToday := even (Suc n), lastSeen := Some todayKey, streak := streak h + 1\<rparr>"
    using assms by (cases "even n") (simp_all add: toggleHabit_cb_def Let_def)
  finally show ?case .
qed

lemma toggleHabit_funpow: "(toggleHabit todayKey i ^^ n) s = map (toggleHabit_cb todayKey i ^^ n) s"
proof (induction n)
  case 0
  show ?case by (simp add: map_idI)
next
  case (Suc n)
  then show ?case by (simp add: toggleHabit_def)
qed

lemma dailyReset_nth:
  "k < length hs \<Longrightarrow> dailyReset todayKey hs ! k
     = (hs ! k)\<lparr>lastSeen := or_null (lastSeen (hs ! k)),
                toggledToday := (if lastSeen (hs ! k) = Some todayKey then toggledToday (hs ! k) else False)\<rparr>"
  by (simp add: dailyReset_def)

lemma dailyReset_short_nth:
  "k < length hs \<Longrightarrow> dailyReset_short todayKey hs ! k
     = (hs ! k)\<lparr>toggledToday := (if lastSeen (hs ! k) = Some todayKey then toggledToday (hs ! k) else False)\<rparr>"
  by (simp add: dailyReset_short_def)

lemma or_null_cases: "or_null v = (if v = Some [] then None else v)"
  by (simp add: or_null_def split: option.splits list.splits)

subsection \<open>The toggle\<close>

text \<open>
  Claim C1. For every habit list, every day key and every habit of the list whose id is
  the one toggled, one call of \<^verbatim>\<open>toggleHabit\<close> sets \<^verbatim>\<open>toggledToday\<close> to the negation of
  "\<^verbatim>\<open>lastSeen\<close> is today and \<^verbatim>\<open>toggledToday\<close> was set", sets \<^verbatim>\<open>lastSeen\<close> to today, and
  updates the streak by the decision table: plus one when the habit turns on and
  \<^verbatim>\<open>lastSeen\<close> was not today, unchanged when it turns on and \<^verbatim>\<open>lastSeen\<close> was today,
  unchanged when it turns off. Id and title stay, and the two source files agree.
\<close>

theorem toggleHabit_decision_table:
  assumes "k < length s" and "id_h (s ! k) = i"
  shows "toggleHabit_short todayKey i s ! k = toggleHabit todayKey i s ! k
    \<and> toggledToday (toggleHabit todayKey i s ! k)
        = (\<not> (lastSeen (s ! k) = Some todayKey \<and> toggledToday (s ! k)))
    \<and> lastSeen (toggleHabit todayKey i s ! k) = Some todayKey
    \<and> streak (toggleHabit todayKey i s ! k)
        = (if toggledToday (toggleHabit todayKey i s ! k) \<and> lastSeen (s ! k) \<noteq> Some todayKey
           then streak (s ! k) + 1
           else if toggledToday (toggleHabit todayKey i s ! k) \<and> lastSeen (s ! k) = Some todayKey
           then streak (s ! k)
           else streak (s ! k))
    \<and> id_h (toggleHabit todayKey i s ! k) = id_h (s ! k)
    \<and> title (toggleHabit todayKey i s ! k) = title (s ! k)"
  using assms
  by (simp add: toggleHabit_short_eq toggleHabit_nth toggleHabit_cb_def Let_def)

theorem toggleHabit_decision_table_witness:
  "toggleHabit ''2024-05-01'' ''a''
     [\<lparr>id_h = ''b'', title = ''read'', toggledToday = True, streak = 2, lastSeen = Some ''2024-05-01''\<rparr>,
      \<lparr>id_h = ''a'', title = ''run'', toggledToday = False, streak = 3, lastSeen = Some ''2024-04-30''\<rparr>] ! 1
   = \<lparr>id_h = ''a'', title = ''run'', toggledToday = True, streak = 4, lastSeen = Some ''2024-05-01''\<rparr>"
  using toggleHabit_decision_table [of 1
     "[\<lparr>id_h = ''b'', title = ''read'', toggledToday = True, streak = 2, lastSeen = Some ''2024-05-01''\<rparr>,
      \<lparr>id_h = ''a'', title = ''run'', toggledToday = False, streak = 3, lastSeen = Some ''2024-04-30''\<rparr>]"
     "''a''" "''2024-05-01''"]
  by (simp add: toggleHabit_def toggleHabit_cb_def)

text \<open>
  Claim C4, as the code has it. For a habit whose \<^verbatim>\<open>lastSeen\<close> is not today, after
  \<open>n \<ge> 1\<close> toggles on that day \<^verbatim>\<open>toggledToday\<close> is "\<open>n\<close> is odd" and the streak is
  one more than before, for every such \<open>n\<close>: the first toggle counts the day and no later
  toggle of the day changes the streak, whether the day ends on or off.
\<close>

theorem toggle_same_day_sequence:
  assumes "k < length s" and "id_h (s ! k) = i" and "lastSeen (s ! k) \<noteq> Some todayKey" and "1 \<le> n"
  shows "toggledToday ((toggleHabit todayKey i ^^ n) s ! k) = odd n
    \<and> streak ((toggleHabit todayKey i ^^ n) s ! k) = streak (s ! k) + 1
    \<and> lastSeen ((toggleHabit todayKey i ^^ n) s ! k) = Some todayKey
    \<and> (toggleHabit_short todayKey i ^^ n) s = (toggleHabit todayKey i ^^ n) s"
proof -
  obtain m where n: "n = Suc m" using assms(4) by (cases n) auto
  have sh: "toggleHabit_short todayKey i = toggleHabit todayKey i"
    by (rule ext) (rule toggleHabit_short_eq)
  have "(toggleHabit todayKey i ^^ n) s ! k = ((toggleHabit_cb todayKey i) ^^ Suc m) (s ! k)"
    using assms(1) by (simp only: toggleHabit_funpow n nth_map)
  also have "\<dots> = (s ! k)\<lparr>toggledToday := even m, lastSeen := Some todayKey,
                               streak := streak (s ! k) + 1\<rparr>"
    using assms(2,3) by (rule toggleHabit_cb_funpow)
  finally show ?thesis
    by (simp add: n sh)
qed

theorem toggle_same_day_sequence_witness:
  "toggledToday ((toggleHabit ''2024-05-01'' ''a'' ^^ 3)
     [\<lparr>id_h = ''a'', title = ''run'', toggledToday = False, streak = 0, lastSeen = None\<rparr>] ! 0)
   \<and> streak ((toggleHabit ''2024-05-01'' ''a'' ^^ 3)
     [\<lparr>id_h = ''a'', title = ''run'', toggledToday = False, streak = 0, lastSeen = None\<rparr>] ! 0) = 1"
  using toggle_same_day_sequence [of 0
     "[\<lparr>id_h = ''a'', title = ''run'', toggledToday = False, streak = 0, lastSeen = None\<rparr>]"
     "''a''" "''2024-05-01''" 3]
  by simp

text \<open>
  The claim's equivalence fails at two toggles of a new habit: the streak has gone up
  by one, and the habit is off.
\<close>

theorem toggle_twice_counterexample:
  "\<not> (streak ((toggleHabit ''2024-05-01'' ''a'' ^^ 2)
         [\<lparr>id_h = ''a'', title = ''run'', toggledToday = False, streak = 0, lastSeen = None\<rparr>] ! 0)
        = streak \<lparr>id_h = ''a'', title = ''run'', toggledToday = False, streak = 0, lastSeen = None\<rparr> + 1
      \<longleftrightarrow>
        toggledToday ((toggleHabit ''2024-05-01'' ''a'' ^^ 2)
         [\<lparr>id_h = ''a'', title = ''run'', toggledToday = False, streak = 0, lastSeen = None\<rparr>] ! 0)
        \<and> \<not> (lastSeen \<lparr>id_h = ''a'', title = ''run'', toggledToday = False, streak = 0, lastSeen = None\<rparr>
                = Some ''2024-05-01''
              \<and> toggledToday \<lparr>id_h = ''a'', title = ''run'', toggledToday = False, streak = 0, lastSeen = None\<rparr>))"
  by (simp add: numeral_2_eq_2 toggleHabit_def toggleHabit_cb_def)

text \<open>
  Claim C10. When no habit of the list has the given id, \<^verbatim>\<open>toggleHabit\<close> returns the
  list as it is; in every case a habit with another id is returned unchanged, at its
  place, and the list keeps its length.
\<close>

theorem toggleHabit_frame:
  "((\<forall>h \<in> set s. id_h h \<noteq> i) \<longrightarrow>
       toggleHabit todayKey i s = s \<and> toggleHabit_short todayKey i s = s)
   \<and> (\<forall>k < length s. id_h (s ! k) \<noteq> i \<longrightarrow>
         toggleHabit todayKey i s ! k = s ! k \<and> toggleHabit_short todayKey i s ! k = s ! k)
   \<and> length (toggleHabit todayKey i s) = length s
   \<and> length (toggleHabit_short todayKey i s) = length s"
proof -
  have a: "(\<forall>h \<in> set s. id_h h \<noteq> i) \<longrightarrow> toggleHabit todayKey i s = s"
    by (simp add: toggleHabit_def toggleHabit_cb_def map_idI)
  have b: "\<forall>k < length s. id_h (s ! k) \<noteq> i \<longrightarrow> toggleHabit todayKey i s ! k = s ! k"
    by (simp add: toggleHabit_nth toggleHabit_cb_def)
  from a b show ?thesis
    by (simp add: toggleHabit_short_eq toggleHabit_length)
qed

theorem toggleHabit_frame_witness:
  "toggleHabit ''2024-05-01'' ''zz''
     [\<lparr>id_h = ''a'', title = ''run'', toggledToday = False, streak = 3, lastSeen = Some ''2024-04-30''\<rparr>,
      \<lparr>id_h = ''b'', title = ''read'', toggledToday = True, streak = 1, lastSeen = Some ''2024-05-01''\<rparr>]
   = [\<lparr>id_h = ''a'', title = ''run'', toggledToday = False, streak = 3, lastSeen = Some ''2024-04-30''\<rparr>,
      \<lparr>id_h = ''b'', title = ''read'', toggledToday = True, streak = 1, lastSeen = Some ''2024-05-01''\<rparr>]
   \<and> toggleHabit ''2024-05-01'' ''a''
     [\<lparr>id_h = ''a'', title = ''run'', toggledToday = False, streak = 3, lastSeen = Some ''2024-04-30''\<rparr>,
      \<lparr>id_h = ''b'', title = ''read'', toggledToday = True, streak = 1, lastSeen = Some ''2024-05-01''\<rparr>] ! 1
   = \<lparr>id_h = ''b'', title = ''read'', toggledToday = True, streak = 1, lastSeen = Some ''2024-05-01''\<rparr>"
  using toggleHabit_frame [of
     "[\<lparr>id_h = ''a'', title = ''run'', toggledToday = False, streak = 3, lastSeen = Some ''2024-04-30''\<rparr>,
      \<lparr>id_h = ''b'', title = ''read'', toggledToday = True, streak = 1, lastSeen = Some ''2024-05-01''\<rparr>]"
     "''zz''" "''2024-05-01''"]
    toggleHabit_frame [of
     "[\<lparr>id_h = ''a'', title = ''run'', toggledToday = False, streak = 3, lastSeen = Some ''2024-04-30''\<rparr>,
      \<lparr>id_h = ''b'', title = ''read'', toggledToday = True, streak = 1, lastSeen = Some ''2024-05-01''\<rparr>]"
     "''a''" "''2024-05-01''"]
  by simp

subsection \<open>The daily reset\<close>

text \<open>
  Claim C8. Take a habit whose \<^verbatim>\<open>lastSeen\<close> is \<^verbatim>\<open>null\<close> or a non-empty string, as in
  every habit the application writes (\<^verbatim>\<open>addHabit\<close> writes \<^verbatim>\<open>null\<close>, \<^verbatim>\<open>toggleHabit\<close> a
  day key of ten characters). In both source files the reset gives it \<^verbatim>\<open>toggledToday\<close>
  false when its \<^verbatim>\<open>lastSeen\<close> is not today, keeps its flag when \<^verbatim>\<open>lastSeen\<close> is today,
  and leaves its streak, \<^verbatim>\<open>lastSeen\<close>, id and title as they are; the list keeps its
  length and order.
\<close>

theorem dailyReset_frame:
  assumes "k < length hs" and "lastSeen (hs ! k) \<noteq> Some []"
  shows "(lastSeen (hs ! k) \<noteq> Some todayKey \<longrightarrow>
            dailyReset todayKey hs ! k = (hs ! k)\<lparr>toggledToday := False\<rparr>
          \<and> dailyReset_short todayKey hs ! k = (hs ! k)\<lparr>toggledToday := False\<rparr>)
    \<and> (lastSeen (hs ! k) = Some todayKey \<longrightarrow>
            dailyReset todayKey hs ! k = hs ! k
          \<and> dailyReset_short todayKey hs ! k = hs ! k)
    \<and> streak (dailyReset todayKey hs ! k) = streak (hs ! k)
    \<and> streak (dailyReset_short todayKey hs ! k) = streak (hs ! k)
    \<and> lastSeen (dailyReset todayKey hs ! k) = lastSeen (hs ! k)
    \<and> lastSeen (dailyReset_short todayKey hs ! k) = lastSeen (hs ! k)
    \<and> id_h (dailyReset todayKey hs ! k) = id_h (hs ! k)
    \<and> id_h (dailyReset_short todayKey hs ! k) = id_h (hs ! k)
    \<and> title (dailyReset todayKey hs ! k) = title (hs ! k)
    \<and> title (dailyReset_short todayKey hs ! k) = title (hs ! k)
    \<and> length (dailyReset todayKey hs) = length hs
    \<and> length (dailyReset_short todayKey hs) = length hs"
proof -
  have l: "length (dailyReset todayKey hs) = length hs"
          "length (dailyReset_short todayKey hs) = length hs"
    by (simp_all add: dailyReset_def dailyReset_short_def)
  have n: "or_null (lastSeen (hs ! k)) = lastSeen (hs ! k)"
    using assms(2) by (simp add: or_null_cases)
  have r: "dailyReset todayKey hs ! k
             = (hs ! k)\<lparr>toggledToday :=
                 (if lastSeen (hs ! k) = Some todayKey then toggledToday (hs ! k) else False)\<rparr>"
    using assms(1) by (simp only: dailyReset_nth n) simp
  have r': "dailyReset_short todayKey hs ! k
             = (hs ! k)\<lparr>toggledToday :=
                 (if lastSeen (hs ! k) = Some todayKey then toggledToday (hs ! k) else False)\<rparr>"
    using assms(1) by (simp only: dailyReset_short_nth)
  show ?thesis
    by (simp add: r r' l)
qed

theorem dailyReset_frame_witness:
  "dailyReset ''2024-05-01''
     [\<lparr>id_h = ''a'', title = ''run'', toggledToday = True, streak = 3, lastSeen = Some ''2024-04-30''\<rparr>,
      \<lparr>id_h = ''b'', title = ''read'', toggledToday = True, streak = 1, lastSeen = Some ''2024-05-01''\<rparr>]
   = [\<lparr>id_h = ''a'', title = ''run'', toggledToday = False, streak = 3, lastSeen = Some ''2024-04-30''\<rparr>,
      \<lparr>id_h = ''b'', title = ''read'', toggledToday = True, streak = 1, lastSeen = Some ''2024-05-01''\<rparr>]"
  using dailyReset_frame [of 0
     "[\<lparr>id_h = ''a'', title = ''run'', toggledToday = True, streak = 3, lastSeen = Some ''2024-04-30''\<rparr>,
      \<lparr>id_h = ''b'', title = ''read'', toggledToday = True, streak = 1, lastSeen = Some ''2024-05-01''\<rparr>]"
     "''2024-05-01''"]
    dailyReset_frame [of 1
     "[\<lparr>id_h = ''a'', title = ''run'', toggledToday = True, streak = 3, lastSeen = Some ''2024-04-30''\<rparr>,
      \<lparr>id_h = ''b'', title = ''read'', toggledToday = True, streak = 1, lastSeen = Some ''2024-05-01''\<rparr>]"
     "''2024-05-01''"]
  by (simp add: dailyReset_def or_null_def)

section \<open>Pomodoro timer: properties\<close>

text \<open>
  The cases of one tick: paused, counting down (the same under every evaluation), and
  the end of a work phase or of a break under each evaluation.
\<close>

lemma tick_paused: "\<not> running p \<Longrightarrow> tick ev p = p"
  by (simp add: tick_def)

lemma tick_count:
  "running p \<Longrightarrow> 1 < secondsLeft p \<Longrightarrow> tick ev p = p\<lparr>secondsLeft := secondsLeft p - 1\<rparr>"
  by (cases ev) (simp_all add: tick_def tick_updater_def)

lemma tick_work_rendered:
  "running p \<Longrightarrow> secondsLeft p \<le> 1 \<Longrightarrow> mode p = Work \<Longrightarrow>
   tick Rendered p
     = p\<lparr>cyclesDone := cyclesDone p + 1,
          mode := (if js_rem (cyclesDone p + 1) (cycles (settings p)) = Some 0 then Long else Short),
          secondsLeft :=
            js_or (if js_rem (cyclesDone p + 1) (cycles (settings p)) = Some 0
                   then long (settings p) else short (settings p)) 5 * 60\<rparr>"
  by (simp add: tick_def tick_updater_def Let_def)

lemma tick_work_eager:
  "running p \<Longrightarrow> secondsLeft p \<le> 1 \<Longrightarrow> mode p = Work \<Longrightarrow>
   tick Eager p
     = p\<lparr>cyclesDone := cyclesDone p + 1,
          mode := (if js_rem (cyclesDone p + 1) (cycles (settings p)) = Some 0 then Long else Short),
          secondsLeft := 0\<rparr>"
  by (simp add: tick_def tick_updater_def Let_def)

lemma tick_work_twice:
  "running p \<Longrightarrow> secondsLeft p \<le> 1 \<Longrightarrow> mode p = Work \<Longrightarrow>
   tick RenderedTwice p
     = p\<lparr>cyclesDone := cyclesDone p + 2,
          mode := (if js_rem (cyclesDone p + 2) (cycles (settings p)) = Some 0 then Long else Short),
          secondsLeft :=
            js_or (if js_rem (cyclesDone p + 2) (cycles (settings p)) = Some 0
                   then long (settings p) else short (settings p)) 5 * 60\<rparr>"
  by (simp add: tick_def tick_updater_def Let_def add.commute)

lemma tick_break_rendered:
  "running p \<Longrightarrow> secondsLeft p \<le> 1 \<Longrightarrow> mode p \<noteq> Work \<Longrightarrow> ev \<noteq> Eager \<Longrightarrow>
   tick ev p = p\<lparr>mode := Work, secondsLeft := js_or (work (settings p)) 25 * 60\<rparr>"
  by (cases ev) (simp_all add: tick_def tick_updater_def)

lemma tick_break_eager:
  "running p \<Longrightarrow> secondsLeft p \<le> 1 \<Longrightarrow> mode p \<noteq> Work \<Longrightarrow>
   tick Eager p = p\<lparr>mode := Work, secondsLeft := 0\<rparr>"
  by (simp add: tick_def tick_updater_def)

lemma tick_running: "running (tick ev p) = running p"
proof (cases "running p")
  case False
  then show ?thesis by (simp add: tick_paused)
next
  case True
  then show ?thesis
    by (cases ev; cases "secondsLeft p \<le> 1"; cases "mode p = Work")
       (simp_all add: tick_work_rendered tick_work_eager tick_work_twice tick_break_rendered
          tick_break_eager tick_count)
qed

lemma ticks_running: "running (fold tick evs p) = running p"
  by (induction evs arbitrary: p) (simp_all add: tick_running)

lemma ticks_paused: "\<not> running p \<Longrightarrow> fold tick evs p = p"
  by (induction evs arbitrary: p) (simp_all add: tick_paused)

lemma ticks_count:
  "running p \<Longrightarrow> int (length evs) < secondsLeft p \<Longrightarrow>
   fold tick evs p = p\<lparr>secondsLeft := secondsLeft p - int (length evs)\<rparr>"
proof (induction evs arbitrary: p)
  case Nil
  then show ?case by simp
next
  case (Cons ev evs)
  let ?p = "p\<lparr>secondsLeft := secondsLeft p - 1\<rparr>"
  from Cons.prems have t: "tick ev p = ?p" by (simp add: tick_count)
  have "fold tick evs ?p = ?p\<lparr>secondsLeft := secondsLeft ?p - int (length evs)\<rparr>"
    using Cons.prems by (intro Cons.IH) simp_all
  then show ?case by (simp add: t algebra_simps)
qed

lemma js_rem_dvd: "0 < b \<Longrightarrow> 0 < a \<Longrightarrow> js_rem a b = Some 0 \<longleftrightarrow> b dvd a"
  by (simp add: js_rem_def mod_eq_0_iff_dvd)

lemma loadState_total: "\<exists>v. loadState localStorage parse = Inr v"
  by (simp add: loadState_def try_catch_def split: sum.splits option.splits)

text \<open>
  When every updater is evaluated once while rendering, a work phase of \<^verbatim>\<open>work\<close>
  minutes ends on tick number \<^verbatim>\<open>work * 60\<close>, in the mode and with the duration the
  settings give; and the end of a phase loads the duration of the next one.
\<close>

lemma work_phase_rendered:
  assumes "positive st" and "int (length evs) = work st * 60 - 1"
  shows "fold tick (evs @ [Rendered]) (start (usePomodoro st))
           = (start (usePomodoro st))
               \<lparr>mode := (if cycles st = 1 then Long else Short),
                secondsLeft := (if cycles st = 1 then long st else short st) * 60,
                cyclesDone := 1\<rparr>"
proof -
  let ?p = "start (usePomodoro st)"
  from assms(1) have pos: "0 < work st" "0 < short st" "0 < long st" "0 < cycles st"
    by (simp_all add: positive_def)
  have p: "running ?p" "secondsLeft ?p = work st * 60" "mode ?p = Work" "cyclesDone ?p = 0"
          "settings ?p = st"
    using pos by (simp_all add: start_def usePomodoro_def usePomodoro_init_def work_effect_def js_or_def)
  have "fold tick evs ?p = ?p\<lparr>secondsLeft := secondsLeft ?p - int (length evs)\<rparr>"
    using p(1,2) assms(2) by (intro ticks_count) simp_all
  then have last: "fold tick evs ?p = ?p\<lparr>secondsLeft := 1\<rparr>"
    using p(2) assms(2) by simp
  have dv: "js_rem 1 (cycles st) = Some 0 \<longleftrightarrow> cycles st = 1"
    using pos(4) by (simp add: js_rem_dvd)
  have "fold tick (evs @ [Rendered]) ?p = tick Rendered (?p\<lparr>secondsLeft := 1\<rparr>)"
    by (simp add: last)
  also have "\<dots> = ?p\<lparr>mode := (if cycles st = 1 then Long else Short),
              secondsLeft := (if cycles st = 1 then long st else short st) * 60,
              cyclesDone := 1\<rparr>"
    using p pos dv by (simp add: tick_work_rendered js_or_def)
  finally show ?thesis .
qed

lemma phase_end_rendered:
  assumes "positive (settings p)" and "0 \<le> cyclesDone p"
  shows "(completes_work p \<longrightarrow>
            tick Rendered p
              = p\<lparr>cyclesDone := cyclesDone p + 1,
                   mode := (if cycles (settings p) dvd cyclesDone p + 1 then Long else Short),
                   secondsLeft := (if cycles (settings p) dvd cyclesDone p + 1
                                   then long (settings p) else short (settings p)) * 60\<rparr>)
       \<and> (completes_break p \<longrightarrow>
            tick Rendered p = p\<lparr>mode := Work, secondsLeft := work (settings p) * 60\<rparr>)"
proof -
  from assms(1) have pos: "0 < work (settings p)" "0 < short (settings p)" "0 < long (settings p)"
      "0 < cycles (settings p)"
    by (simp_all add: positive_def)
  have dv: "js_rem (cyclesDone p + 1) (cycles (settings p)) = Some 0
              \<longleftrightarrow> cycles (settings p) dvd cyclesDone p + 1"
    using pos(4) assms(2) by (intro js_rem_dvd) simp_all
  show ?thesis
    using pos by (simp add: completes_work_def completes_break_def tick_work_rendered
        tick_break_rendered dv js_or_def)
qed

subsection \<open>Phases\<close>

text \<open>
  Claim C2 says that from a fresh running work state \<^verbatim>\<open>work * 60\<close> ticks lead to mode
  \<^verbatim>\<open>"short"\<close> (\<^verbatim>\<open>"long"\<close> only when \<^verbatim>\<open>cycles\<close> is 1) with the duration of that mode
  loaded. Under \<^verbatim>\<open>StrictMode\<close> in a development build the updater of the tick that ends
  the phase runs twice and counts the phase twice. With \<^verbatim>\<open>work = 1\<close> and
  \<^verbatim>\<open>cycles = 2\<close>, after 60 ticks the counter is 2 and the timer is in mode \<^verbatim>\<open>"long"\<close>
  with 900 seconds, where the claim has \<^verbatim>\<open>"short"\<close> with 300. One tick earlier it is
  still in mode \<^verbatim>\<open>"work"\<close> with one second left.
\<close>

theorem work_phase_ticks_strict_mode:
  "fold tick (replicate 60 RenderedTwice)
     (start (usePomodoro \<lparr>work = 1, short = 5, long = 15, cycles = 2\<rparr>))
     = \<lparr>settings = \<lparr>work = 1, short = 5, long = 15, cycles = 2\<rparr>, mode = Long,
        secondsLeft = 900, running = True, cyclesDone = 2\<rparr>
   \<and> fold tick (replicate 59 RenderedTwice)
     (start (usePomodoro \<lparr>work = 1, short = 5, long = 15, cycles = 2\<rparr>))
     = \<lparr>settings = \<lparr>work = 1, short = 5, long = 15, cycles = 2\<rparr>, mode = Work,
        secondsLeft = 1, running = True, cyclesDone = 0\<rparr>
   \<and> positive \<lparr>work = 1, short = 5, long = 15, cycles = 2\<rparr>"
  by code_simp

text \<open>
  Claim C3 says that a completed work phase adds one to the counter, that the mode it
  enters is \<^verbatim>\<open>"long"\<close> exactly when the number of completed work phases is a multiple
  of \<^verbatim>\<open>cycles\<close>, and that a completed break returns to \<^verbatim>\<open>"work"\<close> with the work
  duration loaded. Three runs from the mounted hook where the code does otherwise:
  \<^item> \<^verbatim>\<open>start()\<close>, 59 ticks, \<^verbatim>\<open>start()\<close> again (which changes nothing), and the tick that
    ends the work phase, evaluated eagerly: the timer enters \<^verbatim>\<open>"long"\<close> with 0 seconds,
    not 180;
  \<^item> the same at the end of a break of two minutes: the timer returns to \<^verbatim>\<open>"work"\<close> with
    0 seconds, not 60;
  \<^item> the default settings 25, 5, 15, 4 in a development build under \<^verbatim>\<open>StrictMode\<close>:
    after a work phase, a short break and a second work phase (3300 ticks) the counter
    is 4 and the timer is in \<^verbatim>\<open>"long"\<close>, after two completed work phases and not four.
\<close>

theorem phase_completion_impure_updater:
  "run ([Start] @ replicate 59 (Tick Rendered) @ [Start, Tick Eager])
       (usePomodoro \<lparr>work = 1, short = 2, long = 3, cycles = 1\<rparr>)
     = \<lparr>settings = \<lparr>work = 1, short = 2, long = 3, cycles = 1\<rparr>, mode = Long,
        secondsLeft = 0, running = True, cyclesDone = 1\<rparr>
   \<and> run ([Start, SetPreset Short, Start] @ replicate 119 (Tick Rendered) @ [Start, Tick Eager])
       (usePomodoro \<lparr>work = 1, short = 2, long = 3, cycles = 1\<rparr>)
     = \<lparr>settings = \<lparr>work = 1, short = 2, long = 3, cycles = 1\<rparr>, mode = Work,
        secondsLeft = 0, running = True, cyclesDone = 0\<rparr>
   \<and> run (Start # replicate 3300 (Tick RenderedTwice)) (usePomodoro default_settings)
     = \<lparr>settings = default_settings, mode = Long, secondsLeft = 900, running = True,
        cyclesDone = 4\<rparr>"
  by code_simp

text \<open>
  Claim C6. A tick never changes \<^verbatim>\<open>running\<close>, whether or not it ends a phase and
  however its updater is evaluated, and neither does any number of ticks. Of all
  events, only \<^verbatim>\<open>pause()\<close>, \<^verbatim>\<open>reset()\<close> and \<^verbatim>\<open>setPreset(k)\<close> take a running timer to a
  stopped one.
\<close>

theorem running_preserved:
  "running (tick ev p) = running p
   \<and> running (fold tick evs p) = running p
   \<and> (running p \<longrightarrow>
        (running (step e p) \<longleftrightarrow> e \<noteq> Pause \<and> e \<noteq> Reset \<and> (\<forall>k. e \<noteq> SetPreset k)))"
proof -
  have "running (step e p) \<longleftrightarrow> e \<noteq> Pause \<and> e \<noteq> Reset \<and> (\<forall>k. e \<noteq> SetPreset k)" if "running p"
    using that
    by (cases e)
       (simp_all add: tick_running start_def pause_def reset_def setPreset_def setSettings_def
          work_effect_def)
  then show ?thesis by (simp add: tick_running ticks_running)
qed

theorem running_preserved_witness:
  "running \<lparr>settings = default_settings, mode = Work, secondsLeft = 1, running = True, cyclesDone = 3\<rparr>
   \<and> tick Rendered
       \<lparr>settings = default_settings, mode = Work, secondsLeft = 1, running = True, cyclesDone = 3\<rparr>
       = \<lparr>settings = default_settings, mode = Long, secondsLeft = 900, running = True, cyclesDone = 4\<rparr>
   \<and> running (step (Tick Eager)
       \<lparr>settings = default_settings, mode = Work, secondsLeft = 1, running = True, cyclesDone = 3\<rparr>)
   \<and> \<not> running (step Pause
       \<lparr>settings = default_settings, mode = Work, secondsLeft = 1, running = True, cyclesDone = 3\<rparr>)"
  using running_preserved
          [of Rendered
              "\<lparr>settings = default_settings, mode = Work, secondsLeft = 1, running = True, cyclesDone = 3\<rparr>"
              "[Rendered]" "Tick Eager"]
        running_preserved
          [of Rendered
              "\<lparr>settings = default_settings, mode = Work, secondsLeft = 1, running = True, cyclesDone = 3\<rparr>"
              "[Rendered]" Pause]
  by (simp add: tick_def tick_updater_def js_rem_def js_or_def default_settings_def pause_def)

subsection \<open>Pause, reset and durations of zero\<close>

text \<open>
  Claim C7, as the code has it. After \<^verbatim>\<open>pause()\<close> no interval is installed, so any
  number of seconds leaves the whole state, \<^verbatim>\<open>secondsLeft\<close> included, as it is. From
  every state \<^verbatim>\<open>reset()\<close> gives mode \<^verbatim>\<open>"work"\<close>, \<^verbatim>\<open>running\<close> false, counter 0 and
  \<^verbatim>\<open>(settings.work || 25) * 60\<close> seconds: \<^verbatim>\<open>work * 60\<close> when \<^verbatim>\<open>work\<close> is not 0, and
  1500 when it is.
\<close>

theorem pause_freezes_reset_restores:
  "fold tick evs (pause p) = pause p
   \<and> secondsLeft (fold tick evs (pause p)) = secondsLeft p
   \<and> mode (reset p) = Work
   \<and> \<not> running (reset p)
   \<and> cyclesDone (reset p) = 0
   \<and> secondsLeft (reset p) = (if work (settings p) = 0 then 25 else work (settings p)) * 60"
proof -
  have "\<not> running (pause p)" by (simp add: pause_def)
  then have "fold tick evs (pause p) = pause p" by (rule ticks_paused)
  then show ?thesis by (simp add: pause_def reset_def js_or_def)
qed

text \<open>
  With a work setting of 0, \<^verbatim>\<open>reset()\<close> does not load \<^verbatim>\<open>work * 60\<close> seconds.
\<close>

theorem reset_zero_work_counterexample:
  "secondsLeft (reset \<lparr>settings = \<lparr>work = 0, short = 5, long = 15, cycles = 4\<rparr>, mode = Short,
                        secondsLeft = 17, running = True, cyclesDone = 2\<rparr>)
   \<noteq> work (settings \<lparr>settings = \<lparr>work = 0, short = 5, long = 15, cycles = 4\<rparr>, mode = Short,
                        secondsLeft = 17, running = True, cyclesDone = 2\<rparr>) * 60"
  by (simp add: reset_def js_or_def)

text \<open>
  Claim C5, as the code has it. A duration of 0 is replaced where it is loaded: by 25
  minutes for the work phase after mounting, on \<^verbatim>\<open>reset()\<close> and when the work setting
  changes, and by the work setting in \<^verbatim>\<open>setPreset\<close>. On the tick that ends a phase the
  updater calls \<^verbatim>\<open>setSecondsLeft\<close> with 25 minutes for a work setting of 0 and with 5
  minutes for a break setting of 0. Every other value is used as it is, and
  \<^verbatim>\<open>setSettings\<close> stores what it is given. (What the cell holds after a tick that ends
  a phase is no part of this statement.)
\<close>

theorem zero_duration_defaults:
  "secondsLeft (usePomodoro st) = (if work st = 0 then 25 else work st) * 60
   \<and> secondsLeft (reset p) = (if work (settings p) = 0 then 25 else work (settings p)) * 60
   \<and> settings (setSettings v p) = v
   \<and> (work v \<noteq> work (settings p) \<longrightarrow>
        secondsLeft (setSettings v p) = (if work v = 0 then 25 else work v) * 60)
   \<and> (work v = work (settings p) \<longrightarrow> secondsLeft (setSettings v p) = secondsLeft p)
   \<and> secondsLeft (setPreset k p)
        = (if setting_of (settings p) k = 0 then work (settings p)
           else setting_of (settings p) k) * 60
   \<and> (s \<le> 1 \<and> m \<noteq> Work \<longrightarrow>
        tick_updater st m c s
          = (0, c, [SetMode Work, SetSecondsLeft ((if work st = 0 then 25 else work st) * 60)]))
   \<and> (s \<le> 1 \<longrightarrow>
        (\<exists>next. next \<noteq> Work
           \<and> tick_updater st Work c s
               = (0, c + 1,
                  [SetMode next,
                   SetSecondsLeft ((if setting_of st next = 0 then 5 else setting_of st next) * 60)])))"
proof -
  have a: "secondsLeft (usePomodoro st) = (if work st = 0 then 25 else work st) * 60"
    by (simp add: usePomodoro_def usePomodoro_init_def work_effect_def js_or_def)
  have b: "secondsLeft (reset p) = (if work (settings p) = 0 then 25 else work (settings p)) * 60"
    by (simp add: reset_def js_or_def)
  have c: "settings (setSettings v p) = v"
    by (simp add: setSettings_def work_effect_def)
  have d: "work v \<noteq> work (settings p) \<longrightarrow>
        secondsLeft (setSettings v p) = (if work v = 0 then 25 else work v) * 60"
    by (simp add: setSettings_def work_effect_def js_or_def)
  have e: "work v = work (settings p) \<longrightarrow> secondsLeft (setSettings v p) = secondsLeft p"
    by (simp add: setSettings_def)
  have f: "s \<le> 1 \<and> m \<noteq> Work \<longrightarrow>
        tick_updater st m c s
          = (0, c, [SetMode Work, SetSecondsLeft ((if work st = 0 then 25 else work st) * 60)])"
    by (simp add: tick_updater_def js_or_def)
  have g: "\<exists>next. next \<noteq> Work
           \<and> tick_updater st Work c s
               = (0, c + 1,
                  [SetMode next,
                   SetSecondsLeft ((if setting_of st next = 0 then 5 else setting_of st next) * 60)])"
    if "s \<le> 1"
  proof (cases "js_rem (c + 1) (cycles st) = Some 0")
    case True
    with that have "tick_updater st Work c s
        = (0, c + 1, [SetMode Long,
             SetSecondsLeft ((if setting_of st Long = 0 then 5 else setting_of st Long) * 60)])"
      by (simp add: tick_updater_def js_or_def Let_def)
    then show ?thesis by blast
  next
    case False
    with that have "tick_updater st Work c s
        = (0, c + 1, [SetMode Short,
             SetSecondsLeft ((if setting_of st Short = 0 then 5 else setting_of st Short) * 60)])"
      by (simp add: tick_updater_def js_or_def Let_def)
    then show ?thesis by blast
  qed
  have h: "secondsLeft (setPreset k p)
        = (if setting_of (settings p) k = 0 then work (settings p)
           else setting_of (settings p) k) * 60"
    by (simp add: setPreset_def js_or_def)
  from a b c d e f g h show ?thesis by blast
qed

theorem zero_duration_defaults_witness:
  "tick_updater \<lparr>work = 0, short = 0, long = 0, cycles = 4\<rparr> Short 1 1
     = (0, 1, [SetMode Work, SetSecondsLeft 1500])
   \<and> tick_updater \<lparr>work = 0, short = 0, long = 0, cycles = 4\<rparr> Work 0 1
     = (0, 1, [SetMode Short, SetSecondsLeft 300])
   \<and> secondsLeft (setSettings \<lparr>work = 0, short = 0, long = 0, cycles = 4\<rparr>
                    (usePomodoro default_settings)) = 1500"
  using zero_duration_defaults [of "\<lparr>work = 0, short = 0, long = 0, cycles = 4\<rparr>"
          "usePomodoro default_settings" "\<lparr>work = 0, short = 0, long = 0, cycles = 4\<rparr>" Work 1 Short 1]
        zero_duration_defaults [of "\<lparr>work = 0, short = 0, long = 0, cycles = 4\<rparr>"
          "usePomodoro default_settings" "\<lparr>work = 0, short = 0, long = 0, cycles = 4\<rparr>" Work 1 Short 0]
  by (simp add: tick_updater_def js_rem_def js_or_def
      usePomodoro_def usePomodoro_init_def work_effect_def default_settings_def setSettings_def)

text \<open>
  So a zero work setting gives 25 minutes, not 1; a negative setting gives a negative
  countdown; and \<^verbatim>\<open>setPreset("work")\<close> with a zero work setting gives a countdown of
  length 0.
\<close>

theorem zero_duration_counterexample:
  "work \<lparr>work = 0, short = 5, long = 15, cycles = 4\<rparr> < 1
   \<and> secondsLeft (reset (usePomodoro \<lparr>work = 0, short = 5, long = 15, cycles = 4\<rparr>)) \<noteq> 1 * 60
   \<and> secondsLeft (setSettings \<lparr>work = - 1, short = 5, long = 15, cycles = 4\<rparr>
         (usePomodoro default_settings)) < 0
   \<and> secondsLeft (setPreset Work (usePomodoro \<lparr>work = 0, short = 5, long = 15, cycles = 4\<rparr>)) = 0"
  by (simp add: reset_def usePomodoro_def usePomodoro_init_def work_effect_def js_or_def
      setSettings_def default_settings_def setPreset_def)

section \<open>Persistence: properties\<close>

text \<open>
  Claim C9. \<^verbatim>\<open>loadState\<close> never throws, and neither does the initialisation of
  \<^verbatim>\<open>App\<close>. When the store has no record under \<^verbatim>\<open>"dailyflow_v1"\<close>, or has one that
  \<^verbatim>\<open>JSON.parse\<close> rejects, \<^verbatim>\<open>loadState\<close> returns \<^verbatim>\<open>null\<close> and \<^verbatim>\<open>App\<close> starts from the
  default state: \<^verbatim>\<open>dark\<close> false, no todos, no habits, empty notes, and the default
  Pomodoro settings 25, 5, 15, 4.
\<close>

theorem load_defaults:
  "(\<exists>v. loadState localStorage parse = Inr v)
   \<and> (\<exists>a. App_init localStorage parse = Inr a)
   \<and> ((\<exists>store. localStorage = Inr store
          \<and> (store STORAGE_KEY = None
              \<or> (\<exists>raw e. store STORAGE_KEY = Some raw \<and> parse raw = Inl e)))
        \<longrightarrow> loadState localStorage parse = Inr JNull
          \<and> App_init localStorage parse = Inr default_state)
   \<and> default_state = \<lparr>dark = JBool False, todos = JArr [], habits = JArr [], notes_v = JStr [],
                        pomodoro_settings = default_settings_json\<rparr>
   \<and> settings_of_json default_settings_json = Some default_settings"
proof -
  have t: "\<exists>v. loadState localStorage parse = Inr v" by (rule loadState_total)
  then have t': "\<exists>a. App_init localStorage parse = Inr a"
    by (auto simp: App_init_def)
  have n: "App_init localStorage parse = Inr default_state"
    if "loadState localStorage parse = Inr JNull"
    using that by (simp add: App_init_def default_state_def get_prop_def nullish_def)
  have l: "loadState localStorage parse = Inr JNull"
    if "localStorage = Inr store"
       "store STORAGE_KEY = None \<or> (\<exists>raw e. store STORAGE_KEY = Some raw \<and> parse raw = Inl e)"
    for store
    using that by (auto simp: loadState_def try_catch_def)
  have d: "settings_of_json default_settings_json = Some default_settings"
    by (simp add: settings_of_json_def default_settings_json_def get_prop_def default_settings_def)
  from t t' n l d show ?thesis
    by (auto simp: default_state_def)
qed

theorem load_defaults_witness:
  "App_init (Inr (Map.empty(STORAGE_KEY \<mapsto> ''{dark:'')))
            (\<lambda>raw. if raw = ''{dark:'' then Inl SyntaxError else Inr JNull)
     = Inr default_state
   \<and> App_init (Inr Map.empty) (\<lambda>raw. Inr (JBool True)) = Inr default_state"
  using load_defaults [of "Inr (Map.empty(STORAGE_KEY \<mapsto> ''{dark:''))"
                          "\<lambda>raw. if raw = ''{dark:'' then Inl SyntaxError else Inr JNull"]
        load_defaults [of "Inr Map.empty" "\<lambda>raw. Inr (JBool True)"]
  by simp

end
